theory Spec2Isabelle
  imports Complex_Main
begin

section \<open>Collision and movement resolution of the driving demo\<close>

text \<open>
  An embedding of the collision helpers and of \<open>processInput\<close> of
  \<^verbatim>\<open>src/model_loading.cpp\<close>. The C++ \<open>float\<close> is idealised as \<open>real\<close>, and
  \<open>sinf\<close>, \<open>cosf\<close> as the real sine and cosine: the properties below are about which
  branch is taken and which global is written, and none of them rests on rounding.
  The globals the function reads and writes are the fields of the record \<open>game\<close>; the
  keys that \<open>glfwGetKey\<close> reports as pressed are the record \<open>keys\<close>.
\<close>

subsection \<open>Tunables\<close>

definition CAR_SPEED :: real where
  "CAR_SPEED = 3.5"

definition CAR_SPEED_BOOST_FACTOR :: real where
  "CAR_SPEED_BOOST_FACTOR = 3.0"

definition ROTATION_SPEED :: real where
  "ROTATION_SPEED = 0.01"

subsection \<open>Vectors and boxes\<close>

text \<open>\<open>glm::vec3\<close>; its components \<open>x\<close>, \<open>y\<close>, \<open>z\<close> are the fields \<open>vx\<close>, \<open>vy\<close>, \<open>vz\<close>.\<close>

record vec3 =
  vx :: real
  vy :: real
  vz :: real

definition mkvec3 :: "real \<Rightarrow> real \<Rightarrow> real \<Rightarrow> vec3" where
  "mkvec3 a b c = \<lparr>vx = a, vy = b, vz = c\<rparr>"

text \<open>Component-wise \<open>+\<close>, \<open>*\<close>, \<open>glm::min\<close> and \<open>glm::max\<close> on \<open>vec3\<close>.\<close>

definition vadd :: "vec3 \<Rightarrow> vec3 \<Rightarrow> vec3" where
  "vadd p q = mkvec3 (vx p + vx q) (vy p + vy q) (vz p + vz q)"

definition vmul :: "vec3 \<Rightarrow> vec3 \<Rightarrow> vec3" where
  "vmul p q = mkvec3 (vx p * vx q) (vy p * vy q) (vz p * vz q)"

definition vmin :: "vec3 \<Rightarrow> vec3 \<Rightarrow> vec3" where
  "vmin p q = mkvec3 (min (vx p) (vx q)) (min (vy p) (vy q)) (min (vz p) (vz q))"

definition vmax :: "vec3 \<Rightarrow> vec3 \<Rightarrow> vec3" where
  "vmax p q = mkvec3 (max (vx p) (vx q)) (max (vy p) (vy q)) (max (vz p) (vz q))"

record AABB =
  minLocal :: vec3
  maxLocal :: vec3

text \<open>\<open>buildingModel\<close> is a pointer to the mesh: an opaque handle here.\<close>

record building_t =
  buildingModel :: nat
  buildingPos :: vec3
  buildingScaleFactor :: vec3
  buildingRotation :: real

definition kCarLocalAABB :: AABB where
  "kCarLocalAABB = \<lparr>minLocal = mkvec3 (- 0.9) 0 (- 1.9), maxLocal = mkvec3 0.9 1.5 1.9\<rparr>"

definition kBuildingLocalAABB :: AABB where
  "kBuildingLocalAABB = \<lparr>minLocal = mkvec3 (- 10) 0 (- 8), maxLocal = mkvec3 10 10 8\<rparr>"

subsection \<open>Collision helpers\<close>

definition toWorldAABB_NonRotated :: "AABB \<Rightarrow> vec3 \<Rightarrow> vec3 \<Rightarrow> AABB" where
  "toWorldAABB_NonRotated localBox pos scale =
     (let lo = minLocal localBox; hi = maxLocal localBox;
          c0 = vmul lo scale;
          c1 = vmul (mkvec3 (vx lo) (vy lo) (vz hi)) scale;
          c2 = vmul (mkvec3 (vx lo) (vy hi) (vz lo)) scale;
          c3 = vmul (mkvec3 (vx lo) (vy hi) (vz hi)) scale;
          c4 = vmul (mkvec3 (vx hi) (vy lo) (vz lo)) scale;
          c5 = vmul (mkvec3 (vx hi) (vy lo) (vz hi)) scale;
          c6 = vmul (mkvec3 (vx hi) (vy hi) (vz lo)) scale;
          c7 = vmul hi scale;
          mn = vmin (vmin (vmin c0 c1) (vmin c2 c3)) (vmin (vmin c4 c5) (vmin c6 c7));
          mx = vmax (vmax (vmax c0 c1) (vmax c2 c3)) (vmax (vmax c4 c5) (vmax c6 c7))
      in \<lparr>minLocal = vadd mn pos, maxLocal = vadd mx pos\<rparr>)"

definition aabbOverlap :: "AABB \<Rightarrow> AABB \<Rightarrow> bool" where
  "aabbOverlap a b =
     (if vx (maxLocal a) < vx (minLocal b) \<or> vx (minLocal a) > vx (maxLocal b) then False
      else if vy (maxLocal a) < vy (minLocal b) \<or> vy (minLocal a) > vy (maxLocal b) then False
      else if vz (maxLocal a) < vz (minLocal b) \<or> vz (minLocal a) > vz (maxLocal b) then False
      else True)"

definition rotateY :: "vec3 \<Rightarrow> real \<Rightarrow> vec3" where
  "rotateY p yaw =
     (let c = cos yaw; s = sin yaw
      in mkvec3 (c * vx p + s * vz p) (vy p) (- s * vx p + c * vz p))"

definition carWorldAABBAt :: "vec3 \<Rightarrow> real \<Rightarrow> AABB" where
  "carWorldAABBAt carPos carYaw =
     (let mn = minLocal kCarLocalAABB; mx = maxLocal kCarLocalAABB;
          r0 = vadd (rotateY (mkvec3 (vx mn) (vy mn) (vz mn)) carYaw) carPos;
          r1 = vadd (rotateY (mkvec3 (vx mn) (vy mn) (vz mx)) carYaw) carPos;
          r2 = vadd (rotateY (mkvec3 (vx mn) (vy mx) (vz mn)) carYaw) carPos;
          r3 = vadd (rotateY (mkvec3 (vx mn) (vy mx) (vz mx)) carYaw) carPos;
          r4 = vadd (rotateY (mkvec3 (vx mx) (vy mn) (vz mn)) carYaw) carPos;
          r5 = vadd (rotateY (mkvec3 (vx mx) (vy mn) (vz mx)) carYaw) carPos;
          r6 = vadd (rotateY (mkvec3 (vx mx) (vy mx) (vz mn)) carYaw) carPos;
          r7 = vadd (rotateY (mkvec3 (vx mx) (vy mx) (vz mx)) carYaw) carPos;
          outMin = vmin (vmin (vmin r0 r1) (vmin r2 r3)) (vmin (vmin r4 r5) (vmin r6 r7));
          outMax = vmax (vmax (vmax r0 r1) (vmax r2 r3)) (vmax (vmax r4 r5) (vmax r6 r7))
      in \<lparr>minLocal = outMin, maxLocal = outMax\<rparr>)"

text \<open>
  The loop over \<open>gBuildings\<close>, which returns at the first building that overlaps. The
  list of buildings is the global the loop reads, passed as the first argument.
\<close>

fun wouldCollideAt :: "building_t list \<Rightarrow> vec3 \<Rightarrow> real \<Rightarrow> bool" where
  "wouldCollideAt [] proposedCarPos proposedYaw = False"
| "wouldCollideAt (b # bs) proposedCarPos proposedYaw =
     (if aabbOverlap (carWorldAABBAt proposedCarPos proposedYaw)
           (toWorldAABB_NonRotated kBuildingLocalAABB (buildingPos b) (buildingScaleFactor b))
      then True
      else wouldCollideAt bs proposedCarPos proposedYaw)"

subsection \<open>The globals and the keys\<close>

record game =
  model_trans_loc :: vec3
  rotation :: real
  moment_before_collision :: vec3
  gBuildings :: "building_t list"
  deltaTime :: real
  windowShouldClose :: bool

record keys =
  KEY_LEFT_SHIFT :: bool
  KEY_S :: bool
  KEY_ESCAPE :: bool
  KEY_A :: bool
  KEY_D :: bool
  KEY_W :: bool

subsection \<open>\<open>processInput\<close>\<close>

text \<open>Lines 453 to 456: the speed, boosted by the shift key unless S is pressed.\<close>

definition effectiveSpeed :: "keys \<Rightarrow> real" where
  "effectiveSpeed k =
     (let speed = CAR_SPEED
      in if KEY_LEFT_SHIFT k \<and> \<not> KEY_S k then speed * CAR_SPEED_BOOST_FACTOR else speed)"

text \<open>Lines 458 and 459.\<close>

definition escapeStep :: "keys \<Rightarrow> game \<Rightarrow> game" where
  "escapeStep k g = (if KEY_ESCAPE k then g\<lparr>windowShouldClose := True\<rparr> else g)"

definition wrapPi :: "real \<Rightarrow> real" where
  "wrapPi a0 =
     (let a1 = (if a0 > pi then a0 - 2 * pi else a0);
          a2 = (if a1 < - pi then a1 + 2 * pi else a1)
      in a2)"

text \<open>Lines 462 to 480: the proposed yaw and the flag \<open>rotated\<close>.\<close>

definition proposedYaw :: "keys \<Rightarrow> game \<Rightarrow> real" where
  "proposedYaw k g =
     (let p0 = rotation g;
          p1 = (if KEY_A k then p0 + ROTATION_SPEED else p0);
          p2 = (if KEY_D k then p1 - ROTATION_SPEED else p1)
      in wrapPi p2)"

definition rotated :: "keys \<Rightarrow> bool" where
  "rotated k = (KEY_A k \<or> KEY_D k)"

text \<open>Lines 482 to 488: the rotation is committed only if it is free of collision.\<close>

definition rotationStep :: "keys \<Rightarrow> game \<Rightarrow> game" where
  "rotationStep k g =
     (if rotated k then
        (if \<not> wouldCollideAt (gBuildings g) (model_trans_loc g) (proposedYaw k g)
         then g\<lparr>rotation := proposedYaw k g\<rparr>
         else g)
      else g)"

text \<open>Lines 491 to 500: the proposed position.\<close>

definition fwd :: "keys \<Rightarrow> real" where
  "fwd k =
     (let f0 = 0;
          f1 = (if KEY_W k then f0 + 1 else f0);
          f2 = (if KEY_S k then f1 - 1 else f1)
      in f2)"

definition proposedPos :: "keys \<Rightarrow> game \<Rightarrow> vec3" where
  "proposedPos k g =
     (let p0 = model_trans_loc g
      in if fwd k \<noteq> 0 then
           (let step = fwd k * effectiveSpeed k * deltaTime g;
                p1 = p0\<lparr>vz := vz p0 + step * cos (rotation g)\<rparr>;
                p2 = p1\<lparr>vx := vx p1 + step * sin (rotation g)\<rparr>
            in p2)
         else p0)"

text \<open>Lines 507 and 508: the two slide candidates.\<close>

definition slideX :: "keys \<Rightarrow> game \<Rightarrow> vec3" where
  "slideX k g =
     mkvec3 (vx (proposedPos k g)) (vy (model_trans_loc g)) (vz (model_trans_loc g))"

definition slideZ :: "keys \<Rightarrow> game \<Rightarrow> vec3" where
  "slideZ k g =
     mkvec3 (vx (model_trans_loc g)) (vy (model_trans_loc g)) (vz (proposedPos k g))"

text \<open>Lines 510 and 511: the locals \<open>xFree\<close> and \<open>zFree\<close>.\<close>

definition xFree :: "keys \<Rightarrow> game \<Rightarrow> bool" where
  "xFree k g = (\<not> wouldCollideAt (gBuildings g) (slideX k g) (rotation g))"

definition zFree :: "keys \<Rightarrow> game \<Rightarrow> bool" where
  "zFree k g = (\<not> wouldCollideAt (gBuildings g) (slideZ k g) (rotation g))"

text \<open>Lines 502 to 523: commit, slide along one axis, or go back to the last safe position.\<close>

definition translationStep :: "keys \<Rightarrow> game \<Rightarrow> game" where
  "translationStep k g =
     (if \<not> wouldCollideAt (gBuildings g) (proposedPos k g) (rotation g) then
        g\<lparr>model_trans_loc := proposedPos k g, moment_before_collision := proposedPos k g\<rparr>
      else if xFree k g \<and> \<not> zFree k g then
        g\<lparr>model_trans_loc := (model_trans_loc g)\<lparr>vx := vx (slideX k g)\<rparr>,
          moment_before_collision := (model_trans_loc g)\<lparr>vx := vx (slideX k g)\<rparr>\<rparr>
      else if \<not> xFree k g \<and> zFree k g then
        g\<lparr>model_trans_loc := (model_trans_loc g)\<lparr>vz := vz (slideZ k g)\<rparr>,
          moment_before_collision := (model_trans_loc g)\<lparr>vz := vz (slideZ k g)\<rparr>\<rparr>
      else
        g\<lparr>model_trans_loc := moment_before_collision g\<rparr>)"

text \<open>
  The whole function: the escape key, the rotation, then the translation on the globals
  the rotation left.
\<close>

definition processInput :: "keys \<Rightarrow> game \<Rightarrow> game" where
  "processInput k g = translationStep k (rotationStep k (escapeStep k g))"

subsection \<open>The scene and the frame loop of \<open>main\<close>\<close>

text \<open>Lines 226 to 228: the three buildings; \<open>glm::radians(180.0f)\<close> is \<open>pi\<close>.\<close>

definition gBuildings_main :: "building_t list" where
  "gBuildings_main =
     [\<lparr>buildingModel = 0, buildingPos = mkvec3 0 0 (- 5),
       buildingScaleFactor = mkvec3 0.04 0.04 0.04, buildingRotation = pi\<rparr>,
      \<lparr>buildingModel = 0, buildingPos = mkvec3 8 0 (- 12),
       buildingScaleFactor = mkvec3 0.05 0.05 0.05, buildingRotation = 0\<rparr>,
      \<lparr>buildingModel = 0, buildingPos = mkvec3 (- 6) 0 2,
       buildingScaleFactor = mkvec3 0.035 0.035 0.035, buildingRotation = 0\<rparr>]"

text \<open>
  The globals when the render loop starts: lines 28, 29 and 38, and line 230, which
  copies the position of the car into \<open>moment_before_collision\<close>.
\<close>

definition initial_game :: game where
  "initial_game =
     \<lparr>model_trans_loc = mkvec3 0 0 0, rotation = 0, moment_before_collision = mkvec3 0 0 0,
      gBuildings = gBuildings_main, deltaTime = 0, windowShouldClose = False\<rparr>"

text \<open>
  Lines 362 to 367: one turn of the render loop stores the elapsed time \<open>dt\<close> (the
  difference of two clock readings) in \<open>deltaTime\<close> and calls \<open>processInput\<close>.
\<close>

definition frame :: "real \<Rightarrow> keys \<Rightarrow> game \<Rightarrow> game" where
  "frame dt k g = processInput k (g\<lparr>deltaTime := dt\<rparr>)"

fun frames :: "(real \<times> keys) list \<Rightarrow> game \<Rightarrow> game" where
  "frames [] g = g"
| "frames ((dt, k) # fs) g = frames fs (frame dt k g)"

subsection \<open>Vocabulary of the properties\<close>

text \<open>
  The position of the car is the last safe position. Line 230 makes it so before the
  first frame, and every call of \<open>processInput\<close> makes it so again (lemmas
  \<open>pose_inv_initial\<close>, \<open>pose_inv_frame\<close>, \<open>pose_inv_frames\<close>): it holds whenever
  \<open>processInput\<close> is called by the program.
\<close>

definition pose_inv :: "game \<Rightarrow> bool" where
  "pose_inv g = (moment_before_collision g = model_trans_loc g)"

text \<open>The globals on which the translation part of \<open>processInput\<close> runs.\<close>

definition afterRotation :: "keys \<Rightarrow> game \<Rightarrow> game" where
  "afterRotation k g = rotationStep k (escapeStep k g)"

text \<open>Two buildings that agree on every field but \<open>buildingRotation\<close>.\<close>

definition same_but_rotation :: "building_t \<Rightarrow> building_t \<Rightarrow> bool" where
  "same_but_rotation b b' =
     (buildingModel b = buildingModel b' \<and> buildingPos b = buildingPos b' \<and>
      buildingScaleFactor b = buildingScaleFactor b')"

datatype axis = AxisX | AxisY | AxisZ

fun coord :: "axis \<Rightarrow> vec3 \<Rightarrow> real" where
  "coord AxisX p = vx p"
| "coord AxisY p = vy p"
| "coord AxisZ p = vz p"

text \<open>A box in the sense of the data model: on every axis the minimum is at most the maximum.\<close>

definition box_valid :: "AABB \<Rightarrow> bool" where
  "box_valid a =
     (vx (minLocal a) \<le> vx (maxLocal a) \<and> vy (minLocal a) \<le> vy (maxLocal a) \<and>
      vz (minLocal a) \<le> vz (maxLocal a))"

text \<open>The closed intervals of two boxes on one axis meet.\<close>

definition axis_overlap :: "axis \<Rightarrow> AABB \<Rightarrow> AABB \<Rightarrow> bool" where
  "axis_overlap ax a b =
     (coord ax (minLocal a) \<le> coord ax (maxLocal b) \<and>
      coord ax (minLocal b) \<le> coord ax (maxLocal a))"

subsection \<open>Concrete inputs\<close>

definition keys_none :: keys where
  "keys_none = \<lparr>KEY_LEFT_SHIFT = False, KEY_S = False, KEY_ESCAPE = False,
     KEY_A = False, KEY_D = False, KEY_W = False\<rparr>"

definition keys_W :: keys where
  "keys_W = keys_none\<lparr>KEY_W := True\<rparr>"

definition keys_A :: keys where
  "keys_A = keys_none\<lparr>KEY_A := True\<rparr>"

text \<open>A building with the scale of the second building of \<open>main\<close>: one unit wide, 0.8 deep.\<close>

definition small_building :: "vec3 \<Rightarrow> building_t" where
  "small_building p =
     \<lparr>buildingModel = 0, buildingPos = p, buildingScaleFactor = mkvec3 0.05 0.05 0.05,
      buildingRotation = 0\<rparr>"

text \<open>The car at the origin, where it was last safe, one second after the last frame.\<close>

definition scene :: "real \<Rightarrow> building_t list \<Rightarrow> game" where
  "scene yaw bs =
     \<lparr>model_trans_loc = mkvec3 0 0 0, rotation = yaw, moment_before_collision = mkvec3 0 0 0,
      gBuildings = bs, deltaTime = 1, windowShouldClose = False\<rparr>"

text \<open>
  The yaw \<open>arcsin (3 / 5)\<close> has sine \<open>3 / 5\<close> and cosine \<open>4 / 5\<close>: the car heads
  diagonally, and its world box is 1.86 wide and 2.06 deep on each side of its position.
  In \<open>corner_game\<close> one building stands diagonally ahead, so that the car would run into
  its corner. In \<open>boxed_game\<close> one building stands to the side and one ahead. In
  \<open>wall_game\<close> a building stands beside the car, which is about to turn to that yaw.
\<close>

definition corner_game :: game where
  "corner_game = scene (arcsin (3 / 5)) [small_building (mkvec3 3.5 0 3.5)]"

definition boxed_game :: game where
  "boxed_game =
     scene (arcsin (3 / 5)) [small_building (mkvec3 3.5 0 0), small_building (mkvec3 0 0 4)]"

definition wall_game :: game where
  "wall_game = scene (arcsin (3 / 5) - ROTATION_SPEED) [small_building (mkvec3 2 0 0)]"

text \<open>The buildings of \<open>main\<close>, each drawn turned by one more radian.\<close>

definition gBuildings_turned :: "building_t list" where
  "gBuildings_turned =
     map (\<lambda>b. b\<lparr>buildingRotation := buildingRotation b + 1\<rparr>) gBuildings_main"

text \<open>
  The world box of the car, heading straight, with its right side against the left side
  of the first building of \<open>main\<close>, and the world box of that building.
\<close>

definition touching_car :: AABB where
  "touching_car = carWorldAABBAt (mkvec3 (- 1.3) 0 (- 5)) 0"

definition first_building :: AABB where
  "first_building =
     toWorldAABB_NonRotated kBuildingLocalAABB (mkvec3 0 0 (- 5)) (mkvec3 0.04 0.04 0.04)"

section \<open>Properties\<close>

subsection \<open>What each part of \<open>processInput\<close> leaves alone\<close>

lemma escapeStep_fields [simp]:
  "model_trans_loc (escapeStep k g) = model_trans_loc g"
  "rotation (escapeStep k g) = rotation g"
  "moment_before_collision (escapeStep k g) = moment_before_collision g"
  "gBuildings (escapeStep k g) = gBuildings g"
  "deltaTime (escapeStep k g) = deltaTime g"
  by (simp_all add: escapeStep_def)

lemma rotationStep_fields [simp]:
  "model_trans_loc (rotationStep k g) = model_trans_loc g"
  "moment_before_collision (rotationStep k g) = moment_before_collision g"
  "gBuildings (rotationStep k g) = gBuildings g"
  "deltaTime (rotationStep k g) = deltaTime g"
  "windowShouldClose (rotationStep k g) = windowShouldClose g"
  by (simp_all add: rotationStep_def)

lemma translationStep_fields [simp]:
  "rotation (translationStep k g) = rotation g"
  "gBuildings (translationStep k g) = gBuildings g"
  "deltaTime (translationStep k g) = deltaTime g"
  "windowShouldClose (translationStep k g) = windowShouldClose g"
  by (simp_all add: translationStep_def)

lemma proposedYaw_escapeStep [simp]: "proposedYaw k (escapeStep k' g) = proposedYaw k g"
  by (simp add: proposedYaw_def)

lemma afterRotation_no_turn:
  "\<not> KEY_ESCAPE k \<Longrightarrow> \<not> rotated k \<Longrightarrow> afterRotation k g = g"
  by (simp add: afterRotation_def rotationStep_def escapeStep_def)

subsection \<open>The translation part\<close>

lemma translationStep_safe:
  "model_trans_loc (translationStep k g) = moment_before_collision (translationStep k g)"
  by (simp add: translationStep_def)

lemma translationStep_vy:
  "vy (moment_before_collision g) = vy (model_trans_loc g) \<Longrightarrow>
   vy (model_trans_loc (translationStep k g)) = vy (model_trans_loc g)"
  by (simp add: translationStep_def proposedPos_def Let_def)

lemma proposedPos_no_move: "fwd k = 0 \<Longrightarrow> proposedPos k g = model_trans_loc g"
  by (simp add: proposedPos_def)

lemma slide_no_move:
  "fwd k = 0 \<Longrightarrow> slideX k g = model_trans_loc g"
  "fwd k = 0 \<Longrightarrow> slideZ k g = model_trans_loc g"
  by (simp_all add: slideX_def slideZ_def proposedPos_no_move mkvec3_def)

text \<open>A proposal that keeps x is the slide along z itself.\<close>

lemma slideZ_is_proposedPos:
  "vx (proposedPos k g) = vx (model_trans_loc g) \<Longrightarrow> slideZ k g = proposedPos k g"
  by (simp add: slideZ_def proposedPos_def mkvec3_def Let_def)

lemma translationStep_no_move:
  assumes "fwd k = 0" and "moment_before_collision g = model_trans_loc g"
  shows "translationStep k g = g"
  using assms
  by (simp add: translationStep_def xFree_def zFree_def proposedPos_no_move slide_no_move)

subsection \<open>The invariant of the frame loop\<close>

lemma pose_inv_initial: "pose_inv initial_game"
  by (simp add: pose_inv_def initial_game_def)

lemma pose_inv_frame: "pose_inv (frame dt k g)"
  by (simp add: pose_inv_def frame_def processInput_def translationStep_safe)

lemma pose_inv_frames: "pose_inv g \<Longrightarrow> pose_inv (frames fs g)"
  by (induction fs arbitrary: g) (auto simp: pose_inv_frame)

lemma pose_inv_scene: "pose_inv (scene yaw bs)"
  by (simp add: pose_inv_def scene_def)

subsection \<open>Evaluating the concrete inputs\<close>

lemma cos_yaw35: "cos (arcsin (3 / 5)) = (4 / 5 :: real)"
proof -
  have "cos (arcsin (3 / 5)) = sqrt (1 - (3 / 5)\<^sup>2)"
    by (rule cos_arcsin) simp_all
  also have "1 - (3 / 5 :: real)\<^sup>2 = (4 / 5)\<^sup>2"
    by (simp add: power2_eq_square)
  also have "sqrt ((4 / 5 :: real)\<^sup>2) = 4 / 5"
    by simp
  finally show ?thesis .
qed

lemma wrapPi_yaw35: "wrapPi (arcsin (3 / 5)) = arcsin (3 / 5)"
proof -
  have "- (pi / 2) \<le> arcsin (3 / 5 :: real) \<and> arcsin (3 / 5 :: real) \<le> pi / 2"
    by (rule arcsin_bounded) simp_all
  moreover have "0 < pi" by simp
  ultimately have "\<not> arcsin (3 / 5 :: real) > pi" "\<not> arcsin (3 / 5 :: real) < - pi"
    by linarith+
  then show ?thesis by (simp add: wrapPi_def)
qed

lemma car_box_yaw0:
  "carWorldAABBAt p 0 =
     \<lparr>minLocal = mkvec3 (vx p - 0.9) (vy p) (vz p - 1.9),
      maxLocal = mkvec3 (vx p + 0.9) (vy p + 1.5) (vz p + 1.9)\<rparr>"
  by (simp add: carWorldAABBAt_def kCarLocalAABB_def rotateY_def mkvec3_def vadd_def
      vmin_def vmax_def Let_def)

lemma car_box_yaw35:
  "carWorldAABBAt p (arcsin (3 / 5)) =
     \<lparr>minLocal = mkvec3 (vx p - 1.86) (vy p) (vz p - 2.06),
      maxLocal = mkvec3 (vx p + 1.86) (vy p + 1.5) (vz p + 2.06)\<rparr>"
  by (simp add: carWorldAABBAt_def kCarLocalAABB_def rotateY_def mkvec3_def vadd_def
      vmin_def vmax_def cos_yaw35 Let_def)

lemma small_building_box:
  "toWorldAABB_NonRotated kBuildingLocalAABB (buildingPos (small_building p))
       (buildingScaleFactor (small_building p)) =
     \<lparr>minLocal = mkvec3 (vx p - 0.5) (vy p) (vz p - 0.4),
      maxLocal = mkvec3 (vx p + 0.5) (vy p + 0.5) (vz p + 0.4)\<rparr>"
  by (simp add: toWorldAABB_NonRotated_def kBuildingLocalAABB_def small_building_def
      mkvec3_def vadd_def vmul_def vmin_def vmax_def Let_def)

lemma hits_small_building:
  "aabbOverlap (carWorldAABBAt p (arcsin (3 / 5)))
       (toWorldAABB_NonRotated kBuildingLocalAABB (buildingPos (small_building q))
          (buildingScaleFactor (small_building q))) =
     (vx q - 2.36 \<le> vx p \<and> vx p \<le> vx q + 2.36 \<and>
      vy q - 1.5 \<le> vy p \<and> vy p \<le> vy q + 0.5 \<and>
      vz q - 2.46 \<le> vz p \<and> vz p \<le> vz q + 2.46)"
  by (auto simp add: car_box_yaw35 small_building_box aabbOverlap_def mkvec3_def)

lemma keys_W_simps [simp]:
  "KEY_W keys_W" "\<not> KEY_S keys_W" "\<not> KEY_A keys_W" "\<not> KEY_D keys_W"
  "\<not> KEY_LEFT_SHIFT keys_W" "\<not> KEY_ESCAPE keys_W"
  by (simp_all add: keys_W_def keys_none_def)

text \<open>Forward for one second at the base speed: 3.5 units along the heading.\<close>

lemma proposedPos_scene_W:
  "proposedPos keys_W (scene (arcsin (3 / 5)) bs) = mkvec3 2.1 0 2.8"
  by (simp add: proposedPos_def fwd_def effectiveSpeed_def CAR_SPEED_def scene_def
      mkvec3_def cos_yaw35 Let_def)

lemma slides_scene_W:
  "slideX keys_W (scene (arcsin (3 / 5)) bs) = mkvec3 2.1 0 0"
  "slideZ keys_W (scene (arcsin (3 / 5)) bs) = mkvec3 0 0 2.8"
  by (simp_all add: slideX_def slideZ_def proposedPos_scene_W) (simp_all add: scene_def mkvec3_def)

lemma corner_game_facts:
  "afterRotation keys_W corner_game = corner_game"
  "\<not> wouldCollideAt (gBuildings corner_game) (model_trans_loc corner_game) (rotation corner_game)"
  "wouldCollideAt (gBuildings corner_game) (proposedPos keys_W corner_game) (rotation corner_game)"
  "xFree keys_W corner_game"
  "zFree keys_W corner_game"
      apply (simp add: afterRotation_no_turn rotated_def)
     apply (simp_all add: corner_game_def xFree_def zFree_def proposedPos_scene_W slides_scene_W)
     apply (simp_all add: scene_def hits_small_building)
     apply (simp_all add: mkvec3_def)
  done

lemma boxed_game_facts:
  "afterRotation keys_W boxed_game = boxed_game"
  "\<not> wouldCollideAt (gBuildings boxed_game) (model_trans_loc boxed_game) (rotation boxed_game)"
  "wouldCollideAt (gBuildings boxed_game) (proposedPos keys_W boxed_game) (rotation boxed_game)"
  "\<not> xFree keys_W boxed_game"
  "\<not> zFree keys_W boxed_game"
      apply (simp add: afterRotation_no_turn rotated_def)
     apply (simp_all add: boxed_game_def xFree_def zFree_def proposedPos_scene_W slides_scene_W)
     apply (simp_all add: scene_def hits_small_building)
     apply (simp_all add: mkvec3_def)
  done

lemma wall_game_facts:
  "rotated keys_A"
  "proposedYaw keys_A wall_game = arcsin (3 / 5)"
  "wouldCollideAt (gBuildings wall_game) (model_trans_loc wall_game) (arcsin (3 / 5))"
    apply (simp add: rotated_def keys_A_def)
   apply (simp add: proposedYaw_def keys_A_def keys_none_def wall_game_def scene_def
      wrapPi_yaw35 Let_def)
  apply (simp add: wall_game_def scene_def hits_small_building)
  apply (simp add: mkvec3_def)
  done

lemma touching_car_box:
  "touching_car = \<lparr>minLocal = mkvec3 (- 2.2) 0 (- 6.9), maxLocal = mkvec3 (- 0.4) 1.5 (- 3.1)\<rparr>"
  by (simp add: touching_car_def car_box_yaw0) (simp add: mkvec3_def)

lemma first_building_box:
  "first_building =
     \<lparr>minLocal = mkvec3 (- 0.4) 0 (- 5.32), maxLocal = mkvec3 0.4 0.4 (- 4.68)\<rparr>"
  by (simp add: first_building_def toWorldAABB_NonRotated_def kBuildingLocalAABB_def
      mkvec3_def vadd_def vmul_def vmin_def vmax_def Let_def)

section \<open>The claims\<close>

subsection \<open>C1: the full move blocked, both slides free\<close>

text \<open>
  Claim C1 says that when the full move is blocked and both slide candidates are free,
  the X-only slide is committed: \<open>position.x\<close> becomes the proposed x. The code does
  not do that. Its first guard is \<open>xFree && !zFree\<close> and its second \<open>!xFree && zFree\<close>,
  so with both free it reaches the last branch. In \<open>corner_game\<close> the car heads for the
  corner of a building: the move to (2.1, 0, 2.8) is blocked, both slides are free, and
  the car stays at the origin instead of going to x = 2.1.
\<close>

theorem x_slide_priority_counterexample:
  "wouldCollideAt (gBuildings (afterRotation keys_W corner_game))
      (proposedPos keys_W (afterRotation keys_W corner_game))
      (rotation (afterRotation keys_W corner_game))
   \<and> xFree keys_W (afterRotation keys_W corner_game)
   \<and> zFree keys_W (afterRotation keys_W corner_game)
   \<and> vx (proposedPos keys_W (afterRotation keys_W corner_game)) = 2.1
   \<and> model_trans_loc (processInput keys_W corner_game) = mkvec3 0 0 0
   \<and> vx (model_trans_loc (processInput keys_W corner_game))
       \<noteq> vx (proposedPos keys_W (afterRotation keys_W corner_game))"
proof -
  have p: "model_trans_loc (processInput keys_W corner_game) = mkvec3 0 0 0"
    using corner_game_facts
    by (simp add: processInput_def afterRotation_def [symmetric] translationStep_def)
      (simp add: corner_game_def scene_def)
  have x: "vx (proposedPos keys_W corner_game) = 2.1"
    by (simp add: corner_game_def proposedPos_scene_W) (simp add: mkvec3_def)
  show ?thesis
    using p x corner_game_facts by (simp add: mkvec3_def)
qed

text \<open>
  Claim C1, amended: when the full move is blocked and both slide candidates are free,
  neither slide is committed. The position is set to the last safe position, which is
  left as it was: the branch taken is the one taken when both slides are blocked. The
  position before the call is the last safe position by the invariant of the frame loop,
  \<open>pose_inv\<close>, so the call leaves the position where it was: \<open>position.z\<close> is unchanged,
  and \<open>position.x\<close> is not the proposed x.
\<close>

theorem both_slides_free_restores_last_safe:
  assumes "pose_inv g"
    and "wouldCollideAt (gBuildings (afterRotation k g)) (proposedPos k (afterRotation k g))
           (rotation (afterRotation k g))"
    and "xFree k (afterRotation k g)" and "zFree k (afterRotation k g)"
  shows "model_trans_loc (processInput k g) = moment_before_collision g
       \<and> moment_before_collision (processInput k g) = moment_before_collision g
       \<and> model_trans_loc (processInput k g) = model_trans_loc g
       \<and> vz (model_trans_loc (processInput k g)) = vz (model_trans_loc g)
       \<and> vx (model_trans_loc (processInput k g)) \<noteq> vx (proposedPos k (afterRotation k g))"
proof -
  let ?g = "afterRotation k g"
  have r: "model_trans_loc (processInput k g) = moment_before_collision g"
    "moment_before_collision (processInput k g) = moment_before_collision g"
    using assms(2-4) by (simp_all add: processInput_def afterRotation_def translationStep_def)
  have p: "model_trans_loc (processInput k g) = model_trans_loc g"
    using r(1) assms(1) by (simp add: pose_inv_def)
  have "vx (proposedPos k ?g) \<noteq> vx (model_trans_loc ?g)"
  proof
    assume "vx (proposedPos k ?g) = vx (model_trans_loc ?g)"
    then have "slideZ k ?g = proposedPos k ?g"
      by (rule slideZ_is_proposedPos)
    with assms(2) have "\<not> zFree k ?g"
      by (simp add: zFree_def)
    with assms(4) show False by simp
  qed
  then have x: "vx (model_trans_loc (processInput k g)) \<noteq> vx (proposedPos k ?g)"
    using p by (simp add: afterRotation_def)
  show ?thesis
    using r p x by simp
qed

text \<open>The amended claim at \<open>corner_game\<close>, where its four hypotheses hold.\<close>

theorem both_slides_free_restores_last_safe_witness:
  "pose_inv corner_game
   \<and> wouldCollideAt (gBuildings (afterRotation keys_W corner_game))
      (proposedPos keys_W (afterRotation keys_W corner_game))
      (rotation (afterRotation keys_W corner_game))
   \<and> xFree keys_W (afterRotation keys_W corner_game)
   \<and> zFree keys_W (afterRotation keys_W corner_game)
   \<and> model_trans_loc (processInput keys_W corner_game) = moment_before_collision corner_game
   \<and> moment_before_collision (processInput keys_W corner_game) =
       moment_before_collision corner_game
   \<and> model_trans_loc (processInput keys_W corner_game) = model_trans_loc corner_game
   \<and> vz (model_trans_loc (processInput keys_W corner_game)) = vz (model_trans_loc corner_game)
   \<and> vx (model_trans_loc (processInput keys_W corner_game))
       \<noteq> vx (proposedPos keys_W (afterRotation keys_W corner_game))"
proof -
  have i: "pose_inv corner_game"
    by (simp add: corner_game_def pose_inv_scene)
  have h: "wouldCollideAt (gBuildings (afterRotation keys_W corner_game))
      (proposedPos keys_W (afterRotation keys_W corner_game))
      (rotation (afterRotation keys_W corner_game))"
    "xFree keys_W (afterRotation keys_W corner_game)"
    "zFree keys_W (afterRotation keys_W corner_game)"
    using corner_game_facts by simp_all
  show ?thesis
    using both_slides_free_restores_last_safe [OF i h] i h by blast
qed

subsection \<open>C2: the full move and both slides blocked\<close>

text \<open>
  Claim C2: when the full move is blocked and both slide candidates collide too, the move
  is rejected: the position is set to the last safe position, so after the call the two
  are equal, and the position is the one before the call. The position before the call is
  the last safe position by the invariant of the frame loop, \<open>pose_inv\<close>.
\<close>

theorem both_slides_blocked_restores_last_safe:
  assumes "pose_inv g"
    and "wouldCollideAt (gBuildings (afterRotation k g)) (proposedPos k (afterRotation k g))
           (rotation (afterRotation k g))"
    and "\<not> xFree k (afterRotation k g)" and "\<not> zFree k (afterRotation k g)"
  shows "model_trans_loc (processInput k g) = moment_before_collision (processInput k g)
       \<and> moment_before_collision (processInput k g) = moment_before_collision g
       \<and> model_trans_loc (processInput k g) = model_trans_loc g"
  using assms
  by (simp add: processInput_def afterRotation_def translationStep_def pose_inv_def)

text \<open>
  The claim at \<open>boxed_game\<close>: the car is free where it stands, the building ahead blocks
  the full move and the slide along z, the building to the side blocks the slide along x.
\<close>

theorem both_slides_blocked_restores_last_safe_witness:
  "pose_inv boxed_game
   \<and> \<not> wouldCollideAt (gBuildings boxed_game) (model_trans_loc boxed_game) (rotation boxed_game)
   \<and> wouldCollideAt (gBuildings (afterRotation keys_W boxed_game))
       (proposedPos keys_W (afterRotation keys_W boxed_game))
       (rotation (afterRotation keys_W boxed_game))
   \<and> \<not> xFree keys_W (afterRotation keys_W boxed_game)
   \<and> \<not> zFree keys_W (afterRotation keys_W boxed_game)
   \<and> model_trans_loc (processInput keys_W boxed_game) =
       moment_before_collision (processInput keys_W boxed_game)
   \<and> moment_before_collision (processInput keys_W boxed_game) =
       moment_before_collision boxed_game
   \<and> model_trans_loc (processInput keys_W boxed_game) = model_trans_loc boxed_game"
proof -
  have i: "pose_inv boxed_game"
    by (simp add: boxed_game_def pose_inv_scene)
  show ?thesis
    using both_slides_blocked_restores_last_safe [of boxed_game keys_W] i boxed_game_facts
    by (simp add: pose_inv_def)
qed

subsection \<open>C3: no key pressed\<close>

text \<open>
  Claim C3: for every elapsed time \<open>dt\<close>, a call with none of the keys A, D, W, S and
  left shift pressed leaves the position and the yaw of the car as they were (and the
  last safe position too), whenever the invariant of the frame loop holds before the call.
\<close>

theorem no_intent_pose_unchanged:
  assumes "pose_inv g"
    and "\<not> KEY_A k" "\<not> KEY_D k" "\<not> KEY_W k" "\<not> KEY_S k" "\<not> KEY_LEFT_SHIFT k"
  shows "model_trans_loc (processInput k (g\<lparr>deltaTime := dt\<rparr>)) = model_trans_loc g
       \<and> rotation (processInput k (g\<lparr>deltaTime := dt\<rparr>)) = rotation g
       \<and> moment_before_collision (processInput k (g\<lparr>deltaTime := dt\<rparr>)) =
           moment_before_collision g"
proof -
  let ?g = "rotationStep k (escapeStep k (g\<lparr>deltaTime := dt\<rparr>))"
  have f: "fwd k = 0"
    using assms by (simp add: fwd_def)
  have r: "\<not> rotated k"
    using assms by (simp add: rotated_def)
  have i: "moment_before_collision ?g = model_trans_loc ?g"
    using assms(1) by (simp add: pose_inv_def)
  have "processInput k (g\<lparr>deltaTime := dt\<rparr>) = ?g"
    unfolding processInput_def by (rule translationStep_no_move [OF f i])
  then show ?thesis
    using r by (simp add: rotationStep_def)
qed

text \<open>The claim at the start of the program, 16 milliseconds after the last frame.\<close>

theorem no_intent_pose_unchanged_witness:
  "pose_inv initial_game
   \<and> \<not> KEY_A keys_none \<and> \<not> KEY_D keys_none \<and> \<not> KEY_W keys_none \<and> \<not> KEY_S keys_none
   \<and> \<not> KEY_LEFT_SHIFT keys_none
   \<and> model_trans_loc (processInput keys_none (initial_game\<lparr>deltaTime := 0.016\<rparr>)) =
       model_trans_loc initial_game
   \<and> rotation (processInput keys_none (initial_game\<lparr>deltaTime := 0.016\<rparr>)) =
       rotation initial_game
   \<and> moment_before_collision (processInput keys_none (initial_game\<lparr>deltaTime := 0.016\<rparr>)) =
       moment_before_collision initial_game"
  using no_intent_pose_unchanged [of initial_game keys_none "0.016"] pose_inv_initial
  by (simp add: keys_none_def)

subsection \<open>C4: boxes that touch\<close>

text \<open>
  Claim C4: two boxes that touch on one axis (the maximum of \<open>a\<close> is the minimum of \<open>b\<close>
  there) and overlap on the two other axes are reported as overlapping. A box has its
  minimum at most its maximum on every axis, as the data model requires.
\<close>

theorem touching_boxes_overlap:
  assumes "box_valid a" and "box_valid b"
    and "coord ax (maxLocal a) = coord ax (minLocal b)"
    and "\<forall>ax'. ax' \<noteq> ax \<longrightarrow> axis_overlap ax' a b"
  shows "aabbOverlap a b"
proof -
  have "axis_overlap ax a b"
    using assms(1-3) by (cases ax) (simp_all add: axis_overlap_def box_valid_def)
  with assms(4) have "axis_overlap AxisX a b" "axis_overlap AxisY a b" "axis_overlap AxisZ a b"
    by metis+
  then show ?thesis
    by (simp add: aabbOverlap_def axis_overlap_def not_less)
qed

text \<open>
  The claim for the car standing against the first building of \<open>main\<close>: both boxes have
  a face at x = -0.4.
\<close>

theorem touching_boxes_overlap_witness:
  "box_valid touching_car \<and> box_valid first_building
   \<and> coord AxisX (maxLocal touching_car) = coord AxisX (minLocal first_building)
   \<and> axis_overlap AxisY touching_car first_building
   \<and> axis_overlap AxisZ touching_car first_building
   \<and> aabbOverlap touching_car first_building"
proof -
  have v: "box_valid touching_car" "box_valid first_building"
    by (simp_all add: box_valid_def touching_car_box first_building_box mkvec3_def)
  have t: "coord AxisX (maxLocal touching_car) = coord AxisX (minLocal first_building)"
    by (simp add: touching_car_box first_building_box mkvec3_def)
  have o: "axis_overlap AxisY touching_car first_building"
    "axis_overlap AxisZ touching_car first_building"
    by (simp_all add: axis_overlap_def touching_car_box first_building_box mkvec3_def)
  have a: "\<forall>ax'. ax' \<noteq> AxisX \<longrightarrow> axis_overlap ax' touching_car first_building"
  proof (intro allI impI)
    fix ax' :: axis
    assume "ax' \<noteq> AxisX"
    then show "axis_overlap ax' touching_car first_building"
      using o by (cases ax') simp_all
  qed
  show ?thesis
    using touching_boxes_overlap [OF v t a] v t o by simp
qed

subsection \<open>C5: a rotation that would collide\<close>

text \<open>
  Claim C5: when a rotation key is pressed and the car would collide at its position with
  the proposed yaw, the rotation part of \<open>processInput\<close> changes nothing, and the yaw
  after the whole call is the yaw before it.
\<close>

theorem blocked_rotation_keeps_state:
  assumes "rotated k"
    and "wouldCollideAt (gBuildings g) (model_trans_loc g) (proposedYaw k g)"
  shows "rotationStep k g = g \<and> rotation (processInput k g) = rotation g"
  using assms by (simp add: processInput_def rotationStep_def)

text \<open>
  The claim at \<open>wall_game\<close> with the key A: turned to the proposed yaw, the car would
  reach into the building beside it.
\<close>

theorem blocked_rotation_keeps_state_witness:
  "rotated keys_A
   \<and> wouldCollideAt (gBuildings wall_game) (model_trans_loc wall_game)
       (proposedYaw keys_A wall_game)
   \<and> rotationStep keys_A wall_game = wall_game
   \<and> rotation (processInput keys_A wall_game) = rotation wall_game"
  using blocked_rotation_keeps_state [of keys_A wall_game] wall_game_facts by simp

subsection \<open>C6: the speed\<close>

text \<open>
  Claim C6: the speed is \<open>CAR_SPEED * CAR_SPEED_BOOST_FACTOR\<close> exactly when left shift is
  pressed and S is not, and \<open>CAR_SPEED\<close> otherwise; with S pressed it is \<open>CAR_SPEED\<close>
  whatever the other keys are.
\<close>

theorem effectiveSpeed_boost:
  "effectiveSpeed k =
     (if KEY_LEFT_SHIFT k \<and> \<not> KEY_S k then CAR_SPEED * CAR_SPEED_BOOST_FACTOR else CAR_SPEED)
   \<and> (effectiveSpeed k = CAR_SPEED * CAR_SPEED_BOOST_FACTOR) = (KEY_LEFT_SHIFT k \<and> \<not> KEY_S k)
   \<and> effectiveSpeed (k\<lparr>KEY_S := True\<rparr>) = CAR_SPEED"
  by (simp add: effectiveSpeed_def CAR_SPEED_def CAR_SPEED_BOOST_FACTOR_def Let_def)

subsection \<open>C7: the rotation of a building\<close>

text \<open>
  Claim C7: two lists of buildings that differ only in the \<open>buildingRotation\<close> of their
  entries give the same answer of \<open>wouldCollideAt\<close> at every position and yaw.
\<close>

theorem wouldCollideAt_ignores_buildingRotation:
  assumes "list_all2 same_but_rotation bs bs'"
  shows "wouldCollideAt bs p yaw = wouldCollideAt bs' p yaw"
  using assms
  by (induction rule: list_all2_induct) (simp_all add: same_but_rotation_def)

text \<open>The claim for the buildings of \<open>main\<close> and the same buildings turned.\<close>

theorem wouldCollideAt_ignores_buildingRotation_witness:
  "list_all2 same_but_rotation gBuildings_main gBuildings_turned
   \<and> wouldCollideAt gBuildings_main (mkvec3 0 0 (- 3)) 0 =
       wouldCollideAt gBuildings_turned (mkvec3 0 0 (- 3)) 0"
proof -
  have h: "list_all2 same_but_rotation gBuildings_main gBuildings_turned"
    by (simp add: gBuildings_turned_def gBuildings_main_def same_but_rotation_def)
  show ?thesis
    using h wouldCollideAt_ignores_buildingRotation [OF h] by simp
qed

subsection \<open>C8: symmetry of the overlap test\<close>

text \<open>Claim C8: the overlap test gives the same answer when its two boxes are swapped.\<close>

theorem aabbOverlap_symmetric: "aabbOverlap a b = aabbOverlap b a"
  by (auto simp: aabbOverlap_def)

subsection \<open>C9: the position is the last safe position\<close>

text \<open>
  Claim C9: after every call of \<open>processInput\<close> the position of the car equals the last
  safe position, whichever branch of the translation part was taken. It holds for every
  state before the call, so also for those where the two were equal at the start.
\<close>

theorem processInput_position_is_last_safe:
  "model_trans_loc (processInput k g) = moment_before_collision (processInput k g)"
  unfolding processInput_def by (rule translationStep_safe)

subsection \<open>C10: the height of the car\<close>

text \<open>
  Claim C10: for all keys and every elapsed time, the y component of the position after
  the call is the one before it, given that the last safe position has the y of the
  position, as it has under the invariant of the frame loop.
\<close>

theorem processInput_keeps_height:
  assumes "vy (moment_before_collision g) = vy (model_trans_loc g)"
  shows "vy (model_trans_loc (processInput k g)) = vy (model_trans_loc g)"
  unfolding processInput_def
  using assms translationStep_vy [of "rotationStep k (escapeStep k g)" k] by simp

text \<open>The claim for the first frame of the program with the key W pressed.\<close>

theorem processInput_keeps_height_witness:
  "vy (moment_before_collision (initial_game\<lparr>deltaTime := 0.016\<rparr>)) =
     vy (model_trans_loc (initial_game\<lparr>deltaTime := 0.016\<rparr>))
   \<and> vy (model_trans_loc (processInput keys_W (initial_game\<lparr>deltaTime := 0.016\<rparr>))) =
       vy (model_trans_loc (initial_game\<lparr>deltaTime := 0.016\<rparr>))"
proof -
  have h: "vy (moment_before_collision (initial_game\<lparr>deltaTime := 0.016\<rparr>)) =
      vy (model_trans_loc (initial_game\<lparr>deltaTime := 0.016\<rparr>))"
    by (simp add: initial_game_def)
  show ?thesis
    using h processInput_keeps_height [OF h, of keys_W] by simp
qed

end
